theory Spec2Isabelle
  imports Main "HOL-Library.Word" "HOL-Library.AList" "HOL-Library.Multiset"
begin

section \<open>Wire header, values and errors\<close>

text \<open>
  \<^verbatim>\<open>codec.Header\<close>: the method name, the sequence number (a \<^verbatim>\<open>uint64\<close>) and the
  error text, empty for "no error".
\<close>

record Header =
  h_ServiceMethod :: string
  h_Seq :: "64 word"
  h_Error :: string

definition zeroHeader :: Header where
  "zeroHeader = \<lparr>h_ServiceMethod = [], h_Seq = 0, h_Error = []\<rparr>"

text \<open>
  The values that travel as bodies (\<^verbatim>\<open>interface{}\<close> in the source). \<open>VInvalid\<close> is the
  server's \<^verbatim>\<open>invalidRequest = struct{}{}\<close>, \<open>VStruct n fs\<close> a value of the struct type named
  \<open>n\<close>; \<open>VUnencodable\<close> stands for a value the
  encoder refuses (a channel, a function).
\<close>

datatype gval = VInt int | VString string | VStruct string "int list" | VInvalid | VUnencodable

text \<open>
  Two values have the same Go type when they are built by the same constructor, and two
  structs when they also have the same type name.
\<close>

fun same_type :: "gval \<Rightarrow> gval \<Rightarrow> bool" where
  "same_type (VInt _) (VInt _) = True"
| "same_type (VString _) (VString _) = True"
| "same_type (VStruct n _) (VStruct m _) = (n = m)"
| "same_type VInvalid VInvalid = True"
| "same_type VUnencodable VUnencodable = True"
| "same_type _ _ = False"

text \<open>
  Go \<^verbatim>\<open>error\<close> values of the client: the package variable \<^verbatim>\<open>ErrShutdown\<close>, an error
  of the codec or connection (kept by its text), \<^verbatim>\<open>fmt.Errorf(format)\<close> with no operand
  (kept by its format string) and \<^verbatim>\<open>errors.New(text)\<close>.
\<close>

datatype error = ErrShutdown | CodecError string | Errorf string | ErrorsNew string

section \<open>The codec over one connection\<close>

text \<open>
  The stream is a sequence of encoded values; \<^verbatim>\<open>GobCodec.ReadHeader\<close> and
  \<^verbatim>\<open>GobCodec.ReadBody\<close> both decode the next value of the stream, whatever it is: a
  value that is not a header, or not of the type of the destination, is consumed and
  the decoding fails. A read finds the end of the stream when no value is left, and
  fails on a closed connection.
  \<open>incoming\<close> holds what the peer sends until the stream ends, \<open>written\<close> the frames
  written so far.
\<close>

datatype wire = WHeader Header | WBody gval

record Codec =
  incoming :: "wire list"
  written :: "(Header \<times> gval) list"
  codec_closed :: bool

definition errClosed :: string where
  "errClosed = ''use of closed network connection''"

definition errEOF :: string where
  "errEOF = ''EOF''"

definition errMismatch :: string where
  "errMismatch = ''gob: type mismatch''"

definition errEncode :: string where
  "errEncode = ''gob: type not supported''"

definition CloseCodec :: "Codec \<Rightarrow> Codec" where
  "CloseCodec c = c\<lparr>codec_closed := True\<rparr>"

definition ReadHeader :: "Codec \<Rightarrow> (string + Header) \<times> Codec" where
  "ReadHeader c =
     (if codec_closed c then (Inl errClosed, c)
      else case incoming c of
        [] \<Rightarrow> (Inl errEOF, c)
      | WHeader h # rest \<Rightarrow> (Inr h, c\<lparr>incoming := rest\<rparr>)
      | WBody v # rest \<Rightarrow> (Inl errMismatch, c\<lparr>incoming := rest\<rparr>))"

text \<open>
  \<^verbatim>\<open>GobCodec.ReadBody(body)\<close> is \<^verbatim>\<open>dec.Decode(body)\<close>. With \<^verbatim>\<open>body == nil\<close> the next
  value is decoded and dropped (\<open>ReadBodyNil\<close>); otherwise it is decoded into the
  destination, which holds \<open>d\<close> before and the second component after (\<open>ReadBodyInto\<close>,
  the destination unchanged when decoding fails).
\<close>

definition ReadBodyNil :: "Codec \<Rightarrow> string option \<times> Codec" where
  "ReadBodyNil c =
     (if codec_closed c then (Some errClosed, c)
      else case incoming c of
        [] \<Rightarrow> (Some errEOF, c)
      | w # rest \<Rightarrow> (None, c\<lparr>incoming := rest\<rparr>))"

definition ReadBodyInto :: "gval \<Rightarrow> Codec \<Rightarrow> string option \<times> gval \<times> Codec" where
  "ReadBodyInto d c =
     (if codec_closed c then (Some errClosed, d, c)
      else case incoming c of
        [] \<Rightarrow> (Some errEOF, d, c)
      | WBody v # rest \<Rightarrow>
          if same_type d v then (None, v, c\<lparr>incoming := rest\<rparr>)
          else (Some errMismatch, d, c\<lparr>incoming := rest\<rparr>)
      | WHeader h # rest \<Rightarrow> (Some errMismatch, d, c\<lparr>incoming := rest\<rparr>))"

text \<open>
  \<^verbatim>\<open>GobCodec.Write\<close>: header and body are encoded in turn; on an error the connection
  is closed.
\<close>

definition Write :: "Header \<Rightarrow> gval \<Rightarrow> Codec \<Rightarrow> string option \<times> Codec" where
  "Write h body c =
     (if codec_closed c then (Some errClosed, c)
      else if body = VUnencodable then (Some errEncode, CloseCodec c)
      else (None, c\<lparr>written := written c @ [(h, body)]\<rparr>))"

section \<open>Protocol negotiation\<close>

definition MagicNumber :: int where
  "MagicNumber = 0x3bef5c"

definition GobType :: string where
  "GobType = ''application/gob''"

definition JsonType :: string where
  "JsonType = ''application/json''"

record Option =
  opt_MagicNumber :: int
  opt_CodecType :: string

definition DefaultOption :: Option where
  "DefaultOption = \<lparr>opt_MagicNumber = MagicNumber, opt_CodecType = GobType\<rparr>"


section \<open>The client\<close>

text \<open>
  \<^verbatim>\<open>Call\<close>. \<open>call_ptr\<close> is the address of the Call object (calls are handled by pointer,
  so two calls with equal fields are still two calls), \<open>call_Reply\<close> the content of the
  reply variable, \<open>call_Done\<close> the channel.
\<close>

record Call =
  call_ptr :: nat
  call_Seq :: "64 word"
  call_ServiceMethod :: string
  call_Args :: gval
  call_Reply :: gval
  call_Error :: "error option"
  call_Done :: nat

text \<open>
  \<^verbatim>\<open>Client\<close>, without its two mutexes. \<open>pending\<close> is the map \<^verbatim>\<open>map[uint64]*Call\<close>, kept as
  an association list with one entry for a key.
\<close>

record Client =
  codec :: Codec
  option :: Option
  header :: Header
  seq :: "64 word"
  pending :: "(64 word \<times> Call) list"
  closed :: bool
  shutdown :: bool


definition IsAvailable :: "Client \<Rightarrow> bool" where
  "IsAvailable cl = (\<not> shutdown cl \<and> \<not> closed cl)"

text \<open>\<^verbatim>\<open>registerCall\<close> gives the result, the call (its \<^verbatim>\<open>Seq\<close> set) and the client.\<close>

definition registerCall :: "Call \<Rightarrow> Client \<Rightarrow> (error + 64 word) \<times> Call \<times> Client" where
  "registerCall call cl =
     (if closed cl \<or> shutdown cl then (Inl ErrShutdown, call, cl)
      else
        let call = call\<lparr>call_Seq := seq cl\<rparr>;
            cl = cl\<lparr>pending := AList.update (call_Seq call) call (pending cl)\<rparr>;
            cl = cl\<lparr>seq := seq cl + 1\<rparr>
        in (Inr (call_Seq call), call, cl))"

definition removeCall :: "64 word \<Rightarrow> Client \<Rightarrow> Call option \<times> Client" where
  "removeCall s cl =
     (let call = map_of (pending cl) s
      in (call, cl\<lparr>pending := AList.delete s (pending cl)\<rparr>))"


text \<open>
  One pass of the loop of \<^verbatim>\<open>receive\<close>: the calls signalled, the client and the value of
  \<^verbatim>\<open>err\<close> at the end of the pass.
\<close>

definition receive_iter :: "Client \<Rightarrow> Call list \<times> Client \<times> string option" where
  "receive_iter cl =
     (case ReadHeader (codec cl) of
        (Inl e, c) \<Rightarrow> ([], cl\<lparr>codec := c\<rparr>, Some e)
      | (Inr h, c) \<Rightarrow>
          (case removeCall (h_Seq h) (cl\<lparr>codec := c\<rparr>) of
             (None, cl) \<Rightarrow>
               (case ReadBodyNil (codec cl) of
                  (err, c) \<Rightarrow> ([], cl\<lparr>codec := c\<rparr>, err))
           | (Some call, cl) \<Rightarrow>
               if h_Error h \<noteq> [] then
                 (let call = call\<lparr>call_Error := Some (Errorf (h_Error h))\<rparr>
                  in case ReadBodyNil (codec cl) of
                       (err, c) \<Rightarrow> ([call], cl\<lparr>codec := c\<rparr>, err))
               else
                 (case ReadBodyInto (call_Reply call) (codec cl) of
                    (err, reply, c) \<Rightarrow>
                      (let call = call\<lparr>call_Reply := reply\<rparr>;
                           call = (case err of
                                     None \<Rightarrow> call
                                   | Some e \<Rightarrow>
                                       call\<lparr>call_Error := Some (ErrorsNew (''reading body '' @ e))\<rparr>)
                       in ([call], cl\<lparr>codec := c\<rparr>, err)))))"

text \<open>Every pass that leaves \<^verbatim>\<open>err\<close> nil has consumed a value of the stream.\<close>

lemma ReadHeader_progress:
  "ReadHeader c = (Inr h, c') \<Longrightarrow> length (incoming c') < length (incoming c)"
  by (auto simp: ReadHeader_def split: if_splits list.splits wire.splits)


lemma ReadBodyInto_incoming:
  "ReadBodyInto d c = (r, d', c') \<Longrightarrow> length (incoming c') \<le> length (incoming c)"
  by (auto simp: ReadBodyInto_def split: if_splits list.splits wire.splits)






text \<open>
  The text of an error (\<^verbatim>\<open>err.Error()\<close>). \<^verbatim>\<open>fmt.Errorf(format)\<close> reads its argument as a
  format string: without operands, \<^verbatim>\<open>%%\<close> prints \<^verbatim>\<open>%\<close>, a verb \<^verbatim>\<open>%v\<close> prints
  \<^verbatim>\<open>%!v(MISSING)\<close>, a \<^verbatim>\<open>%\<close> at the end prints \<^verbatim>\<open>%!(NOVERB)\<close>, and the other characters
  print as they are. \<open>sprintf0\<close> gives the text for the formats in which every \<^verbatim>\<open>%\<close> is
  followed by \<^verbatim>\<open>%\<close>, by a letter or by nothing, and \<open>None\<close> for the others (flags, widths
  and argument indexes are not modelled).
\<close>

definition is_letter :: "char \<Rightarrow> bool" where
  "is_letter ch = (((65 :: nat) \<le> of_char ch \<and> of_char ch \<le> (90 :: nat)) \<or>
                   ((97 :: nat) \<le> of_char ch \<and> of_char ch \<le> (122 :: nat)))"

fun sprintf0 :: "string \<Rightarrow> string option" where
  "sprintf0 [] = Some []"
| "sprintf0 [ch] = (if ch = CHR ''%'' then Some ''%!(NOVERB)'' else Some [ch])"
| "sprintf0 (ch # v # rest) =
     (if ch \<noteq> CHR ''%'' then map_option ((#) ch) (sprintf0 (v # rest))
      else if v = CHR ''%'' then map_option ((#) CHR ''%'') (sprintf0 rest)
      else if is_letter v then map_option (\<lambda>r. ''%!'' @ [v] @ ''(MISSING)'' @ r) (sprintf0 rest)
      else None)"

fun error_text :: "error \<Rightarrow> string option" where
  "error_text ErrShutdown = Some ''conn is shut down''"
| "error_text (CodecError s) = Some s"
| "error_text (ErrorsNew s) = Some s"
| "error_text (Errorf f) = sprintf0 f"

text \<open>\<^verbatim>\<open>newClientCodec\<close>, without the start of the reader.\<close>

definition newClientCodec :: "Codec \<Rightarrow> Option \<Rightarrow> Client" where
  "newClientCodec c opt =
     \<lparr>codec = c, option = opt, header = zeroHeader, seq = 1, pending = [],
      closed = False, shutdown = False\<rparr>"




text \<open>
  The registry \<^verbatim>\<open>codec.NewCodeFuncMap\<close> is a package variable; the functions that read it
  take the set of registered codec types as \<open>reg\<close>. \<open>NewCodeFuncMap\<close> is its content after
  \<^verbatim>\<open>init\<close>.
\<close>

definition NewCodeFuncMap :: "string \<Rightarrow> bool" where
  "NewCodeFuncMap t = (t = GobType)"



section \<open>The client in concurrent use\<close>










section \<open>The service registry\<close>

text \<open>
  What \<^verbatim>\<open>reflect\<close> tells about a type: a defined type has a package path and a name
  (a predeclared type such as \<^verbatim>\<open>int\<close> or \<^verbatim>\<open>error\<close> has the empty package path); a
  pointer type \<^verbatim>\<open>*T\<close> is not a defined type, and \<^verbatim>\<open>Name()\<close> and \<^verbatim>\<open>PkgPath()\<close> are both
  empty for it.
\<close>

datatype gotype = Named string string | Pointer gotype

fun type_Name :: "gotype \<Rightarrow> string" where
  "type_Name (Named pkg n) = n"
| "type_Name (Pointer t) = []"

fun type_PkgPath :: "gotype \<Rightarrow> string" where
  "type_PkgPath (Named pkg n) = pkg"
| "type_PkgPath (Pointer t) = []"

definition errorType :: gotype where
  "errorType = Named [] ''error''"

text \<open>\<^verbatim>\<open>ast.IsExported\<close>: the name starts with an upper case letter (names are ASCII here).\<close>

definition IsExported :: "string \<Rightarrow> bool" where
  "IsExported name =
     (case name of
        [] \<Rightarrow> False
      | ch # _ \<Rightarrow> (65 :: nat) \<le> of_char ch \<and> of_char ch \<le> (90 :: nat))"

definition isExportedOrBuiltinType :: "gotype \<Rightarrow> bool" where
  "isExportedOrBuiltinType t = (IsExported (type_Name t) \<or> type_PkgPath t = [])"

text \<open>
  A method as \<^verbatim>\<open>reflect.Method\<close> shows it: its name, the types of its parameters (the
  receiver first) and of its results, and the function, here from the argument and the
  content of the reply variable to the error text (\<open>None\<close> for nil) and the new content
  of the reply variable.
\<close>

record rpc_method =
  m_Name :: string
  m_In :: "gotype list"
  m_Out :: "gotype list"
  m_Func :: "gval \<Rightarrow> gval \<Rightarrow> string option \<times> gval"

record methodType =
  mt_method :: rpc_method
  ArgType :: gotype
  ReplyType :: gotype
  numCalls :: "64 word"

text \<open>The zero value of a type, as \<^verbatim>\<open>reflect.New\<close> allocates it.\<close>

fun zero_value :: "gotype \<Rightarrow> gval" where
  "zero_value (Named pkg n) =
     (if pkg = [] \<and> n = ''int'' then VInt 0
      else if pkg = [] \<and> n = ''string'' then VString []
      else VStruct n [])"
| "zero_value (Pointer t) = zero_value t"

text \<open>
  \<^verbatim>\<open>newArgv\<close> gives the variable that the argument is decoded into, \<^verbatim>\<open>newReply\<close> the
  reply variable; \<^verbatim>\<open>ReplyType.Elem()\<close> panics when the reply type is not a pointer
  (\<open>None\<close>).
\<close>

definition newArgv :: "methodType \<Rightarrow> gval" where
  "newArgv m =
     (case ArgType m of
        Pointer t \<Rightarrow> zero_value t
      | Named pkg n \<Rightarrow> zero_value (Named pkg n))"

definition newReply :: "methodType \<Rightarrow> gval option" where
  "newReply m =
     (case ReplyType m of
        Pointer t \<Rightarrow> Some (zero_value t)
      | Named pkg n \<Rightarrow> None)"

record service =
  svc_name :: string
  svc_typ :: gotype
  svc_instance :: nat
  svc_method :: "string \<rightharpoonup> methodType"

text \<open>
  The instance given to \<^verbatim>\<open>Register\<close>: the value, its type and the methods that
  \<^verbatim>\<open>Type.Method(i)\<close> lists for that type.
\<close>

record rpc_instance =
  inst_value :: nat
  inst_type :: gotype
  inst_methods :: "rpc_method list"

text \<open>The body of the loop of \<^verbatim>\<open>registerMethods\<close>, and the loop.\<close>

definition registerMethod :: "rpc_method \<Rightarrow> (string \<rightharpoonup> methodType) \<Rightarrow> (string \<rightharpoonup> methodType)" where
  "registerMethod m tab =
     (if length (m_In m) \<noteq> 3 \<or> length (m_Out m) \<noteq> 1 then tab
      else if m_Out m ! 0 \<noteq> errorType then tab
      else
        let argType = m_In m ! 1; replyType = m_In m ! 2
        in if \<not> isExportedOrBuiltinType argType \<or> \<not> isExportedOrBuiltinType replyType then tab
           else tab(m_Name m \<mapsto>
                  \<lparr>mt_method = m, ArgType = argType, ReplyType = replyType, numCalls = 0\<rparr>))"

definition registerMethods :: "rpc_method list \<Rightarrow> (string \<rightharpoonup> methodType)" where
  "registerMethods ms = fold registerMethod ms Map.empty"

text \<open>
  \<^verbatim>\<open>newService\<close>; \<open>Inl\<close> is the message of \<^verbatim>\<open>log.Fatalf\<close>, which ends the process.
\<close>

definition service_name :: "rpc_instance \<Rightarrow> string" where
  "service_name inst =
     (case inst_type inst of
        Pointer t \<Rightarrow> type_Name t
      | Named pkg n \<Rightarrow> n)"

definition newService :: "rpc_instance \<Rightarrow> string + service" where
  "newService inst =
     (if \<not> IsExported (service_name inst)
      then Inl (''rpc server: '' @ service_name inst @ '' is not a valid server name'')
      else Inr \<lparr>svc_name = service_name inst, svc_typ = inst_type inst,
                svc_instance = inst_value inst,
                svc_method = registerMethods (inst_methods inst)\<rparr>)"

section \<open>The server\<close>

record Server =
  serviceMap :: "string \<rightharpoonup> service"

definition NewServer :: Server where
  "NewServer = \<lparr>serviceMap = Map.empty\<rparr>"

text \<open>
  \<^verbatim>\<open>Register\<close>: \<open>Exit\<close> when \<^verbatim>\<open>newService\<close> ends the process, else the error returned
  (\<open>None\<close> for nil).
\<close>

datatype outcome = Exit string | Return "string option"

definition Register :: "rpc_instance \<Rightarrow> Server \<Rightarrow> outcome \<times> Server" where
  "Register inst server =
     (case newService inst of
        Inl msg \<Rightarrow> (Exit msg, server)
      | Inr s \<Rightarrow>
          (case serviceMap server (svc_name s) of
             Some _ \<Rightarrow> (Return (Some (''rpc: service already defined: '' @ svc_name s)), server)
           | None \<Rightarrow> (Return None, server\<lparr>serviceMap := (serviceMap server)(svc_name s \<mapsto> s)\<rparr>)))"

text \<open>
  \<^verbatim>\<open>strings.LastIndex(s, ".")\<close> with the two slices \<^verbatim>\<open>s[:dot]\<close> and \<^verbatim>\<open>s[dot+1:]\<close>; \<open>None\<close>
  when there is no dot.
\<close>

definition split_last_dot :: "string \<Rightarrow> (string \<times> string) option" where
  "split_last_dot s =
     (if CHR ''.'' \<notin> set s then None
      else
        let methodName = rev (takeWhile (\<lambda>ch. ch \<noteq> CHR ''.'') (rev s))
        in Some (take (length s - length methodName - 1) s, methodName))"

definition findService :: "Server \<Rightarrow> string \<Rightarrow> service option \<times> methodType option \<times> string option" where
  "findService server serverMethod =
     (case split_last_dot serverMethod of
        None \<Rightarrow> (None, None, Some (''rpc server: service/method request ill-formed: '' @ serverMethod))
      | Some (serviceName, methodName) \<Rightarrow>
          (case serviceMap server serviceName of
             None \<Rightarrow> (None, None, Some (''rpc server: can't find service: '' @ serviceName))
           | Some svc \<Rightarrow>
               (case svc_method svc methodName of
                  None \<Rightarrow> (Some svc, None, Some (''rpc server: can't find method: '' @ methodName))
                | Some mType \<Rightarrow> (Some svc, Some mType, None))))"

text \<open>
  \<^verbatim>\<open>request\<close>; a field that \<^verbatim>\<open>readRequest\<close> has not set yet is \<open>None\<close>.
\<close>

record request =
  req_h :: Header
  req_argv :: "gval option"
  req_replyv :: "gval option"
  req_mType :: "methodType option"
  req_service :: "service option"

text \<open>
  What \<^verbatim>\<open>readRequest\<close> returns: \<open>Failed err\<close> is \<^verbatim>\<open>(nil, err)\<close>, \<open>Bad req err\<close> is
  \<^verbatim>\<open>(req, err)\<close> with an error, \<open>Good req\<close> is \<^verbatim>\<open>(req, nil)\<close>; \<open>Panic\<close> is a run-time
  panic (\<^verbatim>\<open>newReply\<close> on a reply type that is not a pointer).
\<close>

datatype read_outcome = Failed string | Bad request string | Good request | Panic string

definition readRequestHeader :: "Codec \<Rightarrow> (string + Header) \<times> Codec" where
  "readRequestHeader c = ReadHeader c"

definition readRequest :: "Server \<Rightarrow> Codec \<Rightarrow> read_outcome \<times> Codec" where
  "readRequest server c =
     (case readRequestHeader c of
        (Inl err, c) \<Rightarrow> (Failed err, c)
      | (Inr h, c) \<Rightarrow>
          (let req = \<lparr>req_h = h, req_argv = None, req_replyv = None, req_mType = None,
                      req_service = None\<rparr>
           in case findService server (h_ServiceMethod h) of
                (svc, mType, Some err) \<Rightarrow>
                  (Bad (req\<lparr>req_service := svc, req_mType := mType\<rparr>) err, c)
              | (svc, None, None) \<Rightarrow> (Panic ''nil pointer dereference'', c)
              | (svc, Some m, None) \<Rightarrow>
                  (let req = req\<lparr>req_service := svc, req_mType := Some m\<rparr>;
                       req = req\<lparr>req_argv := Some (newArgv m)\<rparr>
                   in case newReply m of
                        None \<Rightarrow> (Panic ''reflect: Elem of invalid type'', c)
                      | Some r \<Rightarrow>
                          (let req = req\<lparr>req_replyv := Some r\<rparr>
                           in case ReadBodyInto (newArgv m) c of
                                (Some err, v, c) \<Rightarrow> (Bad req err, c)
                              | (None, v, c) \<Rightarrow> (Good (req\<lparr>req_argv := Some v\<rparr>), c)))))"

text \<open>\<^verbatim>\<open>sendResponse\<close>: the error of the write is logged only.\<close>

definition sendResponse :: "Codec \<Rightarrow> Header \<Rightarrow> gval \<Rightarrow> Codec" where
  "sendResponse c h body = snd (Write h body c)"

lemma sendResponse_incoming: "incoming (sendResponse c h body) = incoming c"
  by (simp add: sendResponse_def Write_def CloseCodec_def)

lemma readRequest_progress:
  "readRequest server c = (r, c') \<Longrightarrow> (\<forall>e. r \<noteq> Failed e) \<Longrightarrow>
     length (incoming c') < length (incoming c)"
  by (auto simp: readRequest_def readRequestHeader_def Let_def
      split: prod.splits sum.splits option.splits
      dest!: ReadHeader_progress ReadBodyInto_incoming)

text \<open>
  The loop of \<^verbatim>\<open>serveCodec\<close>. It writes the error responses itself and hands every good
  request to a task of its own (\<^verbatim>\<open>go server.handleRequest\<close>): the result is the list of the
  requests handed over, the message of a panic if one ended the loop, and the codec with
  the responses that the loop has written.
\<close>

function serveCodec_loop :: "Server \<Rightarrow> Codec \<Rightarrow> request list \<times> string option \<times> Codec" where
  "serveCodec_loop server c =
     (case readRequest server c of
        (Failed err, c) \<Rightarrow> ([], None, c)
      | (Panic msg, c) \<Rightarrow> ([], Some msg, c)
      | (Bad req err, c) \<Rightarrow>
          (let req = req\<lparr>req_h := (req_h req)\<lparr>h_Error := err\<rparr>\<rparr>
           in serveCodec_loop server (sendResponse c (req_h req) VInvalid))
      | (Good req, c) \<Rightarrow>
          (case serveCodec_loop server c of
             (reqs, p, c) \<Rightarrow> (req # reqs, p, c)))"
  by pat_completeness auto
termination
  by (relation "measure (\<lambda>(server, c). length (incoming c))")
    (auto simp: sendResponse_incoming dest!: readRequest_progress [OF sym])

declare serveCodec_loop.simps [simp del]

text \<open>
  \<^verbatim>\<open>handleRequest\<close> with \<^verbatim>\<open>service.call\<close>; the invocation counter, which nothing here
  reads, is left out.
\<close>

definition handleRequest :: "Codec \<Rightarrow> request \<Rightarrow> Codec" where
  "handleRequest c req =
     (case (req_mType req, req_argv req, req_replyv req) of
        (Some m, Some argv, Some replyv) \<Rightarrow>
          (case m_Func (mt_method m) argv replyv of
             (Some err, replyv) \<Rightarrow> sendResponse c ((req_h req)\<lparr>h_Error := err\<rparr>) VInvalid
           | (None, replyv) \<Rightarrow> sendResponse c (req_h req) replyv)
      | _ \<Rightarrow> c)"

text \<open>
  \<^verbatim>\<open>serveCodec\<close>: after the loop it waits for the tasks and closes the codec. The tasks
  write in any order; here they write after the loop, in the order of the requests.
\<close>

definition serveCodec :: "Server \<Rightarrow> Codec \<Rightarrow> string option \<times> Codec" where
  "serveCodec server c =
     (case serveCodec_loop server c of
        (reqs, Some msg, c) \<Rightarrow> (Some msg, c)
      | (reqs, None, c) \<Rightarrow> (None, CloseCodec (fold (\<lambda>req c. handleRequest c req) reqs c)))"

text \<open>
  An accepted connection: what \<^verbatim>\<open>json.NewDecoder(conn).Decode(&opt)\<close> gives (the error
  text or the Option), and the codec over the rest of the connection, whose \<open>incoming\<close>
  are the values that follow the Option and whose \<open>codec_closed\<close> says whether the
  connection is closed.
\<close>

record Conn =
  handshake :: "string + Option"
  conn_codec :: Codec

definition ServeConn :: "(string \<Rightarrow> bool) \<Rightarrow> Server \<Rightarrow> Conn \<Rightarrow> string option \<times> Codec" where
  "ServeConn reg server conn =
     (case handshake conn of
        Inl err \<Rightarrow> (None, CloseCodec (conn_codec conn))
      | Inr opt \<Rightarrow>
          if opt_MagicNumber opt \<noteq> MagicNumber then (None, CloseCodec (conn_codec conn))
          else if \<not> reg (opt_CodecType opt) then (None, CloseCodec (conn_codec conn))
          else (case serveCodec server (conn_codec conn) of
                  (p, c) \<Rightarrow> (p, CloseCodec c)))"

section \<open>Values for the concrete instances\<close>

definition mk_codec :: "wire list \<Rightarrow> Codec" where
  "mk_codec ws = \<lparr>incoming = ws, written = [], codec_closed = False\<rparr>"

definition mk_call :: "nat \<Rightarrow> Call" where
  "mk_call p =
     \<lparr>call_ptr = p, call_Seq = 0, call_ServiceMethod = ''Foo.Sum'', call_Args = VInt 3,
      call_Reply = VInt 0, call_Error = None, call_Done = p\<rparr>"

text \<open>
  The service of the repository's test: \<^verbatim>\<open>func (f *Foo) Sum(args Args, reply *int) error\<close>,
  and beside it a method whose reply is a pointer to a type that is not exported.
\<close>

definition sum_func :: "gval \<Rightarrow> gval \<Rightarrow> string option \<times> gval" where
  "sum_func args reply =
     (case args of
        VStruct n [a, b] \<Rightarrow> (None, VInt (a + b))
      | _ \<Rightarrow> (Some ''bad arguments'', reply))"

definition Sum_method :: rpc_method where
  "Sum_method =
     \<lparr>m_Name = ''Sum'',
      m_In = [Pointer (Named ''main'' ''Foo''), Named ''main'' ''Args'', Pointer (Named [] ''int'')],
      m_Out = [errorType], m_Func = sum_func\<rparr>"

definition Leak_method :: rpc_method where
  "Leak_method =
     \<lparr>m_Name = ''Leak'',
      m_In = [Pointer (Named ''main'' ''Foo''), Named ''main'' ''Args'',
              Pointer (Named ''main'' ''secret'')],
      m_Out = [errorType], m_Func = sum_func\<rparr>"

definition Foo_instance :: "rpc_method list \<Rightarrow> rpc_instance" where
  "Foo_instance ms =
     \<lparr>inst_value = 0, inst_type = Pointer (Named ''main'' ''Foo''), inst_methods = ms\<rparr>"

definition Foo_server :: Server where
  "Foo_server = snd (Register (Foo_instance [Sum_method]) NewServer)"

definition rq :: "string \<Rightarrow> 64 word \<Rightarrow> Header" where
  "rq sm n = \<lparr>h_ServiceMethod = sm, h_Seq = n, h_Error = []\<rparr>"




text \<open>Registering the calls of a list one after the other.\<close>

definition register_all :: "Call list \<Rightarrow> Client \<Rightarrow> Client" where
  "register_all calls cl = fold (\<lambda>call cl. snd (snd (registerCall call cl))) calls cl"

section \<open>The sequence counter\<close>

lemma registerCall_open:
  "\<not> closed cl \<Longrightarrow> \<not> shutdown cl \<Longrightarrow>
   registerCall call cl =
     (Inr (seq cl), call\<lparr>call_Seq := seq cl\<rparr>,
      cl\<lparr>pending := AList.update (seq cl) (call\<lparr>call_Seq := seq cl\<rparr>) (pending cl),
         seq := seq cl + 1\<rparr>)"
  by (simp add: registerCall_def Let_def)

lemma registerCall_refused:
  "closed cl \<or> shutdown cl \<Longrightarrow> registerCall call cl = (Inl ErrShutdown, call, cl)"
  by (auto simp: registerCall_def)

lemma register_all_seq:
  "\<not> closed cl \<Longrightarrow> \<not> shutdown cl \<Longrightarrow>
   seq (register_all calls cl) = seq cl + of_nat (length calls) \<and>
   \<not> closed (register_all calls cl) \<and> \<not> shutdown (register_all calls cl)"
proof (induction calls arbitrary: cl)
  case Nil
  then show ?case by (simp add: register_all_def)
next
  case (Cons call calls)
  let ?cl = "snd (snd (registerCall call cl))"
  from Cons.prems have st: "seq ?cl = seq cl + 1" "\<not> closed ?cl" "\<not> shutdown ?cl"
    by (simp_all add: registerCall_open)
  have "register_all (call # calls) cl = register_all calls ?cl"
    by (simp add: register_all_def)
  with Cons.IH [OF st(2,3)] st(1) show ?case by (simp add: algebra_simps)
qed

lemma word_lt_succ: "(w :: 64 word) \<noteq> - 1 \<Longrightarrow> w < w + 1"
proof -
  assume "w \<noteq> - 1"
  then have "1 + w \<noteq> 0" by (metis add.commute add_eq_0_iff)
  then have "unat (1 + w) = Suc (unat w)" by (rule unatSuc)
  then show ?thesis by (simp add: word_less_nat_alt add.commute)
qed

lemma unat_one_plus: "n < 2 ^ 64 - 1 \<Longrightarrow> unat (1 + of_nat n :: 64 word) = n + 1"
  by (simp add: unat_word_ariths unat_of_nat)

lemma newClientCodec_open:
  "\<not> closed (newClientCodec c opt)" "\<not> shutdown (newClientCodec c opt)"
  "seq (newClientCodec c opt) = 1"
  by (simp_all add: newClientCodec_def)

text \<open>
  C5, as the code has it. The counter of a new client is 1. On an open client
  \<^verbatim>\<open>registerCall\<close> gives the call the value of the counter, stores it in the pending table
  under that key and adds one to the counter; the counter is a \<^verbatim>\<open>uint64\<close>, so the new value
  is greater than the old one unless the old one is \<open>2^64 - 1\<close>. The registrations of a new
  client are numbered 1, 2, 3, ... as long as there are fewer than \<open>2^64 - 1\<close> of them. On a
  closed or shut down client \<^verbatim>\<open>registerCall\<close> returns \<^verbatim>\<open>ErrShutdown\<close> and changes neither
  the table nor the counter.
\<close>

theorem registerCall_counter:
  "seq (newClientCodec c opt) = 1 \<and>
   (\<not> closed cl \<and> \<not> shutdown cl \<longrightarrow>
      registerCall call cl =
        (Inr (seq cl), call\<lparr>call_Seq := seq cl\<rparr>,
         cl\<lparr>pending := AList.update (seq cl) (call\<lparr>call_Seq := seq cl\<rparr>) (pending cl),
            seq := seq cl + 1\<rparr>) \<and>
      map_of (pending (snd (snd (registerCall call cl)))) (seq cl) = Some (call\<lparr>call_Seq := seq cl\<rparr>) \<and>
      (seq cl \<noteq> - 1 \<longrightarrow> seq cl < seq (snd (snd (registerCall call cl))))) \<and>
   (length calls < 2 ^ 64 - 1 \<longrightarrow>
      unat (seq (register_all calls (newClientCodec c opt))) = length calls + 1) \<and>
   (closed cl \<or> shutdown cl \<longrightarrow> registerCall call cl = (Inl ErrShutdown, call, cl))"
proof (intro conjI impI)
  show "seq (newClientCodec c opt) = 1" by (simp add: newClientCodec_def)
next
  assume "\<not> closed cl \<and> \<not> shutdown cl"
  then show "registerCall call cl =
        (Inr (seq cl), call\<lparr>call_Seq := seq cl\<rparr>,
         cl\<lparr>pending := AList.update (seq cl) (call\<lparr>call_Seq := seq cl\<rparr>) (pending cl),
            seq := seq cl + 1\<rparr>)"
    by (simp add: registerCall_open)
next
  assume "\<not> closed cl \<and> \<not> shutdown cl"
  then show "map_of (pending (snd (snd (registerCall call cl)))) (seq cl) = Some (call\<lparr>call_Seq := seq cl\<rparr>)"
    by (simp add: registerCall_open update_conv')
next
  assume "\<not> closed cl \<and> \<not> shutdown cl" and "seq cl \<noteq> - 1"
  then show "seq cl < seq (snd (snd (registerCall call cl)))"
    by (simp add: registerCall_open word_lt_succ)
next
  assume "length calls < 2 ^ 64 - 1"
  then show "unat (seq (register_all calls (newClientCodec c opt))) = length calls + 1"
    using register_all_seq [OF newClientCodec_open(1,2), of calls c opt]
    by (simp add: newClientCodec_open(3) unat_one_plus)
next
  assume "closed cl \<or> shutdown cl"
  then show "registerCall call cl = (Inl ErrShutdown, call, cl)"
    by (rule registerCall_refused)
qed

theorem registerCall_counter_witness:
  "seq (newClientCodec (mk_codec []) DefaultOption) = 1 \<and>
   fst (registerCall (mk_call 7) (newClientCodec (mk_codec []) DefaultOption)) = Inr 1 \<and>
   map_of (pending (snd (snd (registerCall (mk_call 7) (newClientCodec (mk_codec []) DefaultOption))))) 1
     = Some ((mk_call 7)\<lparr>call_Seq := 1\<rparr>) \<and>
   (1 :: 64 word) < seq (snd (snd (registerCall (mk_call 7) (newClientCodec (mk_codec []) DefaultOption)))) \<and>
   unat (seq (register_all [mk_call 7, mk_call 8] (newClientCodec (mk_codec []) DefaultOption))) = 3 \<and>
   registerCall (mk_call 9) ((newClientCodec (mk_codec []) DefaultOption)\<lparr>closed := True\<rparr>)
     = (Inl ErrShutdown, mk_call 9, (newClientCodec (mk_codec []) DefaultOption)\<lparr>closed := True\<rparr>)"
  using registerCall_counter [of "mk_codec []" DefaultOption
      "newClientCodec (mk_codec []) DefaultOption" "mk_call 7" "[mk_call 7, mk_call 8]"]
    registerCall_counter [of "mk_codec []" DefaultOption
      "(newClientCodec (mk_codec []) DefaultOption)\<lparr>closed := True\<rparr>" "mk_call 9" "[]"]
  by (simp add: newClientCodec_def)

text \<open>
  C5 as stated fails where the counter wraps around. After \<open>2^64 - 2\<close> registrations a new
  client, still open, has the counter \<open>2^64 - 1\<close>; the next registration succeeds and leaves
  the counter at 0, which is not greater; and after \<open>2^64\<close> registrations the counter is 1
  again, the number of the first call.
\<close>

theorem registerCall_counter_wraps:
  "\<not> closed (register_all (replicate (2 ^ 64 - 2) (mk_call 0)) (newClientCodec (mk_codec []) DefaultOption)) \<and>
   \<not> shutdown (register_all (replicate (2 ^ 64 - 2) (mk_call 0)) (newClientCodec (mk_codec []) DefaultOption)) \<and>
   seq (register_all (replicate (2 ^ 64 - 2) (mk_call 0)) (newClientCodec (mk_codec []) DefaultOption)) = - 1 \<and>
   fst (registerCall (mk_call 0)
         (register_all (replicate (2 ^ 64 - 2) (mk_call 0)) (newClientCodec (mk_codec []) DefaultOption)))
     = Inr (- 1) \<and>
   seq (snd (snd (registerCall (mk_call 0)
         (register_all (replicate (2 ^ 64 - 2) (mk_call 0)) (newClientCodec (mk_codec []) DefaultOption)))))
     = 0 \<and>
   seq (register_all (replicate (2 ^ 64) (mk_call 0)) (newClientCodec (mk_codec []) DefaultOption)) = 1"
proof -
  let ?new = "newClientCodec (mk_codec []) DefaultOption"
  let ?cl = "register_all (replicate (2 ^ 64 - 2) (mk_call 0)) ?new"
  have a: "seq ?cl = - 1" "\<not> closed ?cl" "\<not> shutdown ?cl"
    using register_all_seq [OF newClientCodec_open(1,2), of "replicate (2 ^ 64 - 2) (mk_call 0)" "mk_codec []" DefaultOption]
    by (simp_all add: newClientCodec_open(3))
  have b: "seq (register_all (replicate (2 ^ 64) (mk_call 0)) ?new) = 1"
    using register_all_seq [OF newClientCodec_open(1,2), of "replicate (2 ^ 64) (mk_call 0)" "mk_codec []" DefaultOption]
    by (simp add: newClientCodec_open(3))
  from a b show ?thesis by (simp add: registerCall_open)
qed

section \<open>The options of Dial\<close>





section \<open>Registration of methods and services\<close>

text \<open>The shape that \<^verbatim>\<open>registerMethods\<close> keeps, with the test of the code on the two types.\<close>

definition method_shape :: "rpc_method \<Rightarrow> bool" where
  "method_shape m =
     (length (m_In m) = 3 \<and> m_Out m = [errorType] \<and>
      isExportedOrBuiltinType (m_In m ! 1) \<and> isExportedOrBuiltinType (m_In m ! 2))"

lemma out_single: "(length xs = 1 \<and> xs ! 0 = e) = (xs = [e])"
  by (cases xs) auto

lemma registerMethod_dom:
  "(registerMethod m tab n \<noteq> None) = (tab n \<noteq> None \<or> (m_Name m = n \<and> method_shape m))"
  using out_single [of "m_Out m" errorType]
  by (auto simp: registerMethod_def method_shape_def Let_def)

lemma fold_registerMethod_dom:
  "(fold registerMethod ms tab n \<noteq> None) =
     (tab n \<noteq> None \<or> (\<exists>m \<in> set ms. m_Name m = n \<and> method_shape m))"
proof (induction ms arbitrary: tab)
  case Nil
  then show ?case by simp
next
  case (Cons m ms)
  show ?case
    unfolding fold_simps Cons.IH registerMethod_dom by auto
qed

text \<open>
  A name is in the method map exactly when a method of that name passes the tests of the
  loop; the others are skipped, and nothing is reported.
\<close>

lemma registerMethods_dom:
  "(registerMethods ms n \<noteq> None) = (\<exists>m \<in> set ms. m_Name m = n \<and> method_shape m)"
  using fold_registerMethod_dom [of ms Map.empty n]
  by (simp only: registerMethods_def) simp

text \<open>
  C6 at a method whose reply type is a pointer to the unexported type \<^verbatim>\<open>secret\<close> of the
  package \<^verbatim>\<open>main\<close>: \<^verbatim>\<open>isExportedOrBuiltinType\<close> looks at the pointer type itself, which
  has no name and no package path, so the method is entered into the method map.
\<close>

theorem registerMethods_unexported_reply:
  "registerMethods [Sum_method, Leak_method] ''Leak'' =
     Some \<lparr>mt_method = Leak_method, ArgType = Named ''main'' ''Args'',
           ReplyType = Pointer (Named ''main'' ''secret''), numCalls = 0\<rparr> \<and>
   \<not> isExportedOrBuiltinType (Named ''main'' ''secret'') \<and>
   isExportedOrBuiltinType (Pointer (Named ''main'' ''secret''))"
  by (simp add: registerMethods_def registerMethod_def Sum_method_def Leak_method_def
      isExportedOrBuiltinType_def IsExported_def errorType_def Let_def)

lemma Register_dup:
  "serviceMap server (service_name inst) = Some s0 \<Longrightarrow> IsExported (service_name inst) \<Longrightarrow>
     Register inst server =
       (Return (Some (''rpc: service already defined: '' @ service_name inst)), server)"
  by (simp add: Register_def newService_def)

lemma Register_first:
  "Register inst server = (Return None, server') \<Longrightarrow>
     IsExported (service_name inst) \<and>
     serviceMap server' (service_name inst) =
       Some \<lparr>svc_name = service_name inst, svc_typ = inst_type inst,
             svc_instance = inst_value inst,
             svc_method = registerMethods (inst_methods inst)\<rparr>"
  by (auto simp: Register_def newService_def split: if_splits option.splits)

text \<open>
  C7. When a service of the derived name is registered already, \<^verbatim>\<open>Register\<close> returns the
  error "service already defined" and the server is unchanged. So after a first
  registration a second one under the same name fails, and the name still leads to the
  descriptor of the first instance, with the methods of the first instance.
\<close>

theorem Register_duplicate:
  "(serviceMap server (service_name inst) = Some s0 \<and> IsExported (service_name inst) \<longrightarrow>
      Register inst server =
        (Return (Some (''rpc: service already defined: '' @ service_name inst)), server)) \<and>
   (Register inst1 server = (Return None, server1) \<and> service_name inst2 = service_name inst1 \<longrightarrow>
      Register inst2 server1 =
        (Return (Some (''rpc: service already defined: '' @ service_name inst1)), server1) \<and>
      serviceMap (snd (Register inst2 server1)) (service_name inst1) =
        Some \<lparr>svc_name = service_name inst1, svc_typ = inst_type inst1,
              svc_instance = inst_value inst1,
              svc_method = registerMethods (inst_methods inst1)\<rparr> \<and>
      findService (snd (Register inst2 server1)) serverMethod = findService server1 serverMethod)"
proof (intro conjI impI)
  assume "serviceMap server (service_name inst) = Some s0 \<and> IsExported (service_name inst)"
  then show "Register inst server =
        (Return (Some (''rpc: service already defined: '' @ service_name inst)), server)"
    by (simp add: Register_dup)
next
  assume a: "Register inst1 server = (Return None, server1) \<and> service_name inst2 = service_name inst1"
  then have f: "IsExported (service_name inst2)"
    "serviceMap server1 (service_name inst2) =
       Some \<lparr>svc_name = service_name inst1, svc_typ = inst_type inst1,
             svc_instance = inst_value inst1,
             svc_method = registerMethods (inst_methods inst1)\<rparr>"
    using Register_first [of inst1 server server1] by simp_all
  from Register_dup [OF f(2) f(1)] a
  show r: "Register inst2 server1 =
        (Return (Some (''rpc: service already defined: '' @ service_name inst1)), server1)"
    by simp
  from r f(2) a show "serviceMap (snd (Register inst2 server1)) (service_name inst1) =
        Some \<lparr>svc_name = service_name inst1, svc_typ = inst_type inst1,
              svc_instance = inst_value inst1,
              svc_method = registerMethods (inst_methods inst1)\<rparr>"
    by simp
  from r show "findService (snd (Register inst2 server1)) serverMethod = findService server1 serverMethod"
    by simp
qed

lemma Register_Foo:
  "Register (Foo_instance [Sum_method]) NewServer =
     (Return None,
      \<lparr>serviceMap = [''Foo'' \<mapsto>
         \<lparr>svc_name = ''Foo'', svc_typ = Pointer (Named ''main'' ''Foo''), svc_instance = 0,
          svc_method = registerMethods [Sum_method]\<rparr>]\<rparr>)"
  by (simp add: Register_def newService_def service_name_def Foo_instance_def NewServer_def
      IsExported_def)

theorem Register_duplicate_witness:
  "Register (Foo_instance [Sum_method]) NewServer =
     (Return None, snd (Register (Foo_instance [Sum_method]) NewServer)) \<and>
   service_name (Foo_instance []) = service_name (Foo_instance [Sum_method]) \<and>
   Register (Foo_instance []) (snd (Register (Foo_instance [Sum_method]) NewServer)) =
     (Return (Some ''rpc: service already defined: Foo''),
      snd (Register (Foo_instance [Sum_method]) NewServer)) \<and>
   fst (snd (findService
     (snd (Register (Foo_instance []) (snd (Register (Foo_instance [Sum_method]) NewServer))))
     ''Foo.Sum'')) =
     Some \<lparr>mt_method = Sum_method, ArgType = Named ''main'' ''Args'',
           ReplyType = Pointer (Named [] ''int''), numCalls = 0\<rparr>"
proof -
  let ?s1 = "snd (Register (Foo_instance [Sum_method]) NewServer)"
  have a: "Register (Foo_instance [Sum_method]) NewServer = (Return None, ?s1)"
    by (simp add: Register_Foo)
  have b: "service_name (Foo_instance []) = service_name (Foo_instance [Sum_method])"
    by (simp add: service_name_def Foo_instance_def)
  have n: "service_name (Foo_instance [Sum_method]) = ''Foo''"
    by (simp add: service_name_def Foo_instance_def)
  have m: "registerMethods [Sum_method] ''Sum'' =
     Some \<lparr>mt_method = Sum_method, ArgType = Named ''main'' ''Args'',
           ReplyType = Pointer (Named [] ''int''), numCalls = 0\<rparr>"
    by (simp add: registerMethods_def registerMethod_def Sum_method_def
        isExportedOrBuiltinType_def IsExported_def errorType_def Let_def)
  have f: "fst (snd (findService ?s1 ''Foo.Sum'')) =
     Some \<lparr>mt_method = Sum_method, ArgType = Named ''main'' ''Args'',
           ReplyType = Pointer (Named [] ''int''), numCalls = 0\<rparr>"
    by (simp add: Register_Foo findService_def split_last_dot_def m)
  from Register_duplicate [where server = NewServer and ?inst1.0 = "Foo_instance [Sum_method]"
      and ?server1.0 = ?s1 and ?inst2.0 = "Foo_instance []" and serverMethod = "''Foo.Sum''"] a b n f
  show ?thesis by simp
qed

section \<open>The server's handshake and request loop\<close>

text \<open>
  C8. When the Option decoded from an accepted connection has another magic number than
  the constant, or a codec type that is not registered, \<^verbatim>\<open>ServeConn\<close> closes the connection
  and does nothing else: no value of the codec stream is read and nothing is written.
\<close>

theorem ServeConn_rejects:
  "handshake conn = Inr opt \<and> (opt_MagicNumber opt \<noteq> MagicNumber \<or> \<not> reg (opt_CodecType opt)) \<longrightarrow>
     ServeConn reg server conn = (None, CloseCodec (conn_codec conn)) \<and>
     incoming (snd (ServeConn reg server conn)) = incoming (conn_codec conn) \<and>
     written (snd (ServeConn reg server conn)) = written (conn_codec conn) \<and>
     codec_closed (snd (ServeConn reg server conn))"
  by (auto simp: ServeConn_def CloseCodec_def)

theorem ServeConn_rejects_witness:
  "ServeConn NewCodeFuncMap Foo_server
     \<lparr>handshake = Inr \<lparr>opt_MagicNumber = 5, opt_CodecType = GobType\<rparr>,
      conn_codec = mk_codec [WHeader (rq ''Foo.Sum'' 1), WBody (VStruct ''Args'' [1, 2])]\<rparr>
     = (None, \<lparr>incoming = [WHeader (rq ''Foo.Sum'' 1), WBody (VStruct ''Args'' [1, 2])],
               written = [], codec_closed = True\<rparr>) \<and>
   ServeConn NewCodeFuncMap Foo_server
     \<lparr>handshake = Inr \<lparr>opt_MagicNumber = MagicNumber, opt_CodecType = JsonType\<rparr>,
      conn_codec = mk_codec [WHeader (rq ''Foo.Sum'' 1), WBody (VStruct ''Args'' [1, 2])]\<rparr>
     = (None, \<lparr>incoming = [WHeader (rq ''Foo.Sum'' 1), WBody (VStruct ''Args'' [1, 2])],
               written = [], codec_closed = True\<rparr>)"
  using
    ServeConn_rejects [of
      "\<lparr>handshake = Inr \<lparr>opt_MagicNumber = 5, opt_CodecType = GobType\<rparr>,
        conn_codec = mk_codec [WHeader (rq ''Foo.Sum'' 1), WBody (VStruct ''Args'' [1, 2])]\<rparr>"
      "\<lparr>opt_MagicNumber = 5, opt_CodecType = GobType\<rparr>" NewCodeFuncMap Foo_server]
    ServeConn_rejects [of
      "\<lparr>handshake = Inr \<lparr>opt_MagicNumber = MagicNumber, opt_CodecType = JsonType\<rparr>,
        conn_codec = mk_codec [WHeader (rq ''Foo.Sum'' 1), WBody (VStruct ''Args'' [1, 2])]\<rparr>"
      "\<lparr>opt_MagicNumber = MagicNumber, opt_CodecType = JsonType\<rparr>" NewCodeFuncMap Foo_server]
  by (simp add: MagicNumber_def NewCodeFuncMap_def GobType_def JsonType_def mk_codec_def
      CloseCodec_def)

lemma Foo_server_eq:
  "Foo_server = \<lparr>serviceMap = [''Foo'' \<mapsto>
         \<lparr>svc_name = ''Foo'', svc_typ = Pointer (Named ''main'' ''Foo''), svc_instance = 0,
          svc_method = registerMethods [Sum_method]\<rparr>]\<rparr>"
  by (simp add: Foo_server_def Register_Foo)

text \<open>
  The three ways of one pass of the loop: a header that cannot be read ends the loop; a
  request that \<^verbatim>\<open>readRequest\<close> returns with an error gets the error in its header and one
  response with the body \<^verbatim>\<open>invalidRequest\<close>, and the loop goes on with the next pass.
\<close>

lemma readRequest_header_error:
  "ReadHeader c = (Inl err, c') \<Longrightarrow> readRequest server c = (Failed err, c')"
  by (simp add: readRequest_def readRequestHeader_def)

lemma serveCodec_loop_Failed:
  "readRequest server c = (Failed err, c') \<Longrightarrow> serveCodec_loop server c = ([], None, c')"
  by (subst serveCodec_loop.simps) simp

lemma serveCodec_loop_Bad:
  "readRequest server c = (Bad req err, c') \<Longrightarrow>
     serveCodec_loop server c =
       serveCodec_loop server (sendResponse c' ((req_h req)\<lparr>h_Error := err\<rparr>) VInvalid)"
  by (subst serveCodec_loop.simps) (simp add: Let_def)

text \<open>
  C9 at a request for a service that is not registered, followed by a good request.
  \<^verbatim>\<open>readRequest\<close> returns before it reads the body of the first request, so after the error
  response the next pass decodes that body as a header, fails and ends the loop: the good
  request that follows is never read and never handed over. When it is the body that
  cannot be decoded, the body has been consumed, and the loop does serve the request that
  follows.
\<close>

theorem serveCodec_loop_lookup_failure:
  "serveCodec_loop Foo_server
     (mk_codec [WHeader (rq ''Nope.Sum'' 1), WBody (VStruct ''Args'' [1, 2]),
                WHeader (rq ''Foo.Sum'' 2), WBody (VStruct ''Args'' [3, 4])])
   = ([], None,
      \<lparr>incoming = [WHeader (rq ''Foo.Sum'' 2), WBody (VStruct ''Args'' [3, 4])],
       written = [(\<lparr>h_ServiceMethod = ''Nope.Sum'', h_Seq = 1,
                    h_Error = ''rpc server: can't find service: Nope''\<rparr>, VInvalid)],
       codec_closed = False\<rparr>) \<and>
   fst (serveCodec_loop Foo_server
     (mk_codec [WHeader (rq ''Foo.Sum'' 1), WBody (VInt 5),
                WHeader (rq ''Foo.Sum'' 2), WBody (VStruct ''Args'' [3, 4])]))
   = [\<lparr>req_h = rq ''Foo.Sum'' 2, req_argv = Some (VStruct ''Args'' [3, 4]),
       req_replyv = Some (VInt 0),
       req_mType = registerMethods [Sum_method] ''Sum'',
       req_service = serviceMap Foo_server ''Foo''\<rparr>]"
  by (simp add: serveCodec_loop.simps Foo_server_eq mk_codec_def rq_def readRequest_def
      readRequestHeader_def ReadHeader_def ReadBodyInto_def findService_def split_last_dot_def
      sendResponse_def Write_def newArgv_def newReply_def registerMethods_def registerMethod_def
      Sum_method_def isExportedOrBuiltinType_def IsExported_def errorType_def Let_def)

section \<open>The client's reader loop\<close>


lemma receive_iter_remote_error:
  "ReadHeader (codec cl) = (Inr h, c) \<Longrightarrow> map_of (pending cl) (h_Seq h) = Some call \<Longrightarrow>
   h_Error h \<noteq> [] \<Longrightarrow>
     receive_iter cl =
       ([call\<lparr>call_Error := Some (Errorf (h_Error h))\<rparr>],
        cl\<lparr>codec := snd (ReadBodyNil c), pending := AList.delete (h_Seq h) (pending cl)\<rparr>,
        fst (ReadBodyNil c))"
  by (simp add: receive_iter_def removeCall_def Let_def split: prod.splits)

lemma receive_iter_reply:
  "ReadHeader (codec cl) = (Inr h, c) \<Longrightarrow> map_of (pending cl) (h_Seq h) = Some call \<Longrightarrow>
   h_Error h = [] \<Longrightarrow> ReadBodyInto (call_Reply call) c = (err, reply, c') \<Longrightarrow>
     receive_iter cl =
       ([case err of
           None \<Rightarrow> call\<lparr>call_Reply := reply\<rparr>
         | Some e \<Rightarrow> call\<lparr>call_Reply := reply,
                          call_Error := Some (ErrorsNew (''reading body '' @ e))\<rparr>],
        cl\<lparr>codec := c', pending := AList.delete (h_Seq h) (pending cl)\<rparr>, err)"
  by (simp add: receive_iter_def removeCall_def Let_def split: prod.splits option.splits)

text \<open>
  C2 at a response whose header carries the error text \<^verbatim>\<open>disk 100%\<close> for the pending call
  number 1. The body is dropped and the call is completed, with the error
  \<^verbatim>\<open>fmt.Errorf(h.Error)\<close>: the text of the header is used as a format string, and the error
  of the call reads \<^verbatim>\<open>disk 100%!(NOVERB)\<close>, which is not the message of the header.
\<close>

theorem receive_iter_error_text:
  "fst (receive_iter
     (snd (snd (registerCall (mk_call 7)
        (newClientCodec
           (mk_codec [WHeader \<lparr>h_ServiceMethod = ''Foo.Sum'', h_Seq = 1, h_Error = ''disk 100%''\<rparr>,
                      WBody VInvalid])
           DefaultOption)))))
   = [(mk_call 7)\<lparr>call_Seq := 1, call_Error := Some (Errorf ''disk 100%'')\<rparr>] \<and>
   error_text (Errorf ''disk 100%'') = Some ''disk 100%!(NOVERB)'' \<and>
   error_text (Errorf ''disk 100%'') \<noteq> Some ''disk 100%''"
  by (simp add: receive_iter_def registerCall_def newClientCodec_def mk_codec_def mk_call_def
      ReadHeader_def ReadBodyNil_def removeCall_def Let_def)





section \<open>The end of a client\<close>













section \<open>The send path\<close>





section \<open>Every call is signalled once\<close>


































end
